theory Spec2Isabelle
  imports Main "HOL-Library.Sublist" "HOL-Library.Log_Nat" "HOL-Library.Multiset"
begin

section \<open>JavaScript strings and numbers\<close>

text \<open>
  A JavaScript string is modelled as a \<^typ>\<open>string\<close>, one \<^typ>\<open>char\<close> per code unit, so
  the embedding covers the strings whose code units are below 256. The white space that
  \<^verbatim>\<open>String.prototype.trim\<close> and \<^verbatim>\<open>Number\<close> strip is, in that range: TAB, LF, VT, FF, CR,
  SPACE and NBSP.
\<close>

definition isWhiteSpace :: "char \<Rightarrow> bool" where
  "isWhiteSpace c =
     (c \<in> set [CHR 0x09, CHR 0x0A, CHR 0x0B, CHR 0x0C, CHR 0x0D, CHR 0x20, CHR 0xA0])"

definition trim :: "string \<Rightarrow> string" where
  "trim s = rev (dropWhile isWhiteSpace (rev (dropWhile isWhiteSpace s)))"

text \<open>
  \<^verbatim>\<open>String.prototype.toLowerCase\<close> on code units below 256: A to Z, and the accented capitals
  0xC0 to 0xDE other than the multiplication sign 0xD7, move up by 32, which sets the bit
  of value 32.
\<close>

definition lowerChar :: "char \<Rightarrow> char" where
  "lowerChar c =
     (let n = (of_char c :: nat)
      in if (65 \<le> n \<and> n \<le> 90) \<or> (192 \<le> n \<and> n \<le> 222 \<and> n \<noteq> 215)
         then (case c of Char b0 b1 b2 b3 b4 b5 b6 b7 \<Rightarrow> Char b0 b1 b2 b3 b4 True b6 b7)
         else c)"

definition toLowerCase :: "string \<Rightarrow> string" where
  "toLowerCase s = map lowerChar s"

text \<open>\<^verbatim>\<open>String.prototype.includes\<close>: the argument occurs as a contiguous run.\<close>

fun includes_str :: "string \<Rightarrow> string \<Rightarrow> bool" where
  "includes_str [] sub = (sub = [])"
| "includes_str (c # cs) sub = (prefix sub (c # cs) \<or> includes_str cs sub)"

text \<open>
  A JavaScript number is a double: not a number, an infinity, or a finite value, which
  is a rational. The sign of zero is not kept: no comparison in the code tells the two
  zeros apart.
\<close>

datatype jsnum = NaN | PosInfinity | NegInfinity | Finite rat

definition pow2 :: "int \<Rightarrow> rat" where
  "pow2 e = (if 0 \<le> e then 2 ^ nat e else 1 / 2 ^ nat (- e))"

definition pow10 :: "int \<Rightarrow> rat" where
  "pow10 e = (if 0 \<le> e then 10 ^ nat e else 1 / 10 ^ nat (- e))"

text \<open>The exponent \<open>e\<close> with \<open>2^e \<le> a < 2^(e+1)\<close>, for a positive rational \<open>a\<close>.\<close>

definition floorLog2 :: "rat \<Rightarrow> int" where
  "floorLog2 a =
     (if 1 \<le> a then bitlen \<lfloor>a\<rfloor> - 1
      else let e0 = - bitlen \<lfloor>1 / a\<rfloor>
           in if pow2 (e0 + 1) \<le> a then e0 + 1 else e0)"

definition roundHalfEven :: "rat \<Rightarrow> int" where
  "roundHalfEven r =
     (let f = \<lfloor>r\<rfloor>; d = r - of_int f
      in if d < 1 / 2 then f else if 1 / 2 < d then f + 1 else if even f then f else f + 1)"

text \<open>
  The double nearest to a rational (IEEE 754 binary64, ties to even): 53 significant
  bits and least exponent -1022. The largest double is \<open>2^1024 - 2^971\<close>; a magnitude
  from \<open>2^1024 - 2^970\<close> on, half a unit above it, rounds to an infinity.
\<close>

definition overflowBound :: rat where
  "overflowBound = 2 ^ 1024 - 2 ^ 970"

definition roundToDouble :: "rat \<Rightarrow> jsnum" where
  "roundToDouble q =
     (if q = 0 then Finite 0
      else if overflowBound \<le> \<bar>q\<bar> then (if q < 0 then NegInfinity else PosInfinity)
      else let a = \<bar>q\<bar>;
               e = max (floorLog2 a) (- 1022);
               ulp = pow2 (e - 52);
               v = of_int (roundHalfEven (a / ulp)) * ulp
           in Finite (if q < 0 then - v else v))"

subsection \<open>\<^verbatim>\<open>Number(string)\<close>\<close>

text \<open>
  The conversion of a string to a number (ECMAScript StringToNumber): white space is
  stripped at both ends; the empty string is 0; \<^verbatim>\<open>0x\<close>, \<^verbatim>\<open>0o\<close> and \<^verbatim>\<open>0b\<close> introduce an
  unsigned integer in base 16, 8 and 2; otherwise an optional sign is followed by
  \<^verbatim>\<open>Infinity\<close> or by a decimal literal with an optional fraction and exponent. Any other
  string is not a number.
\<close>

definition digitVal :: "char \<Rightarrow> int option" where
  "digitVal = map_of
     [(CHR ''0'', 0), (CHR ''1'', 1), (CHR ''2'', 2), (CHR ''3'', 3), (CHR ''4'', 4),
      (CHR ''5'', 5), (CHR ''6'', 6), (CHR ''7'', 7), (CHR ''8'', 8), (CHR ''9'', 9),
      (CHR ''a'', 10), (CHR ''b'', 11), (CHR ''c'', 12), (CHR ''d'', 13), (CHR ''e'', 14),
      (CHR ''f'', 15), (CHR ''A'', 10), (CHR ''B'', 11), (CHR ''C'', 12), (CHR ''D'', 13),
      (CHR ''E'', 14), (CHR ''F'', 15)]"

definition isDigitIn :: "int \<Rightarrow> char \<Rightarrow> bool" where
  "isDigitIn base c = (case digitVal c of None \<Rightarrow> False | Some d \<Rightarrow> d < base)"

definition digitsValue :: "int \<Rightarrow> string \<Rightarrow> int" where
  "digitsValue base ds = foldl (\<lambda>acc c. base * acc + (case digitVal c of None \<Rightarrow> 0 | Some d \<Rightarrow> d)) 0 ds"

definition parseDigits :: "int \<Rightarrow> string \<Rightarrow> int option" where
  "parseDigits base ds =
     (if ds \<noteq> [] \<and> list_all (isDigitIn base) ds then Some (digitsValue base ds) else None)"

definition parseSignedInteger :: "string \<Rightarrow> int option" where
  "parseSignedInteger s =
     (case s of
        c # t \<Rightarrow>
          if c = CHR ''-'' then map_option uminus (parseDigits 10 t)
          else if c = CHR ''+'' then parseDigits 10 t
          else parseDigits 10 s
      | [] \<Rightarrow> None)"

definition parseUnsignedDecimal :: "string \<Rightarrow> rat option" where
  "parseUnsignedDecimal u =
     (let ip = takeWhile (isDigitIn 10) u;
          r1 = dropWhile (isDigitIn 10) u;
          fp = (case r1 of c # t \<Rightarrow> if c = CHR ''.'' then takeWhile (isDigitIn 10) t else [] | [] \<Rightarrow> []);
          r2 = (case r1 of c # t \<Rightarrow> if c = CHR ''.'' then dropWhile (isDigitIn 10) t else r1 | [] \<Rightarrow> []);
          mant = of_int (digitsValue 10 (ip @ fp)) :: rat
      in if ip = [] \<and> fp = [] then None
         else case r2 of
                [] \<Rightarrow> Some (mant * pow10 (- int (length fp)))
              | c # t \<Rightarrow>
                  if c = CHR ''e'' \<or> c = CHR ''E''
                  then map_option (\<lambda>x. mant * pow10 (x - int (length fp))) (parseSignedInteger t)
                  else None)"

definition parseStrDecimalLiteral :: "string \<Rightarrow> jsnum" where
  "parseStrDecimalLiteral s =
     (let neg = (case s of c # _ \<Rightarrow> c = CHR ''-'' | [] \<Rightarrow> False);
          u = (case s of c # t \<Rightarrow> if c = CHR ''-'' \<or> c = CHR ''+'' then t else s | [] \<Rightarrow> [])
      in if u = ''Infinity'' then (if neg then NegInfinity else PosInfinity)
         else case parseUnsignedDecimal u of
                None \<Rightarrow> NaN
              | Some q \<Rightarrow> roundToDouble (if neg then - q else q))"

definition parseNonDecimal :: "int \<Rightarrow> string \<Rightarrow> jsnum" where
  "parseNonDecimal base ds =
     (case parseDigits base ds of None \<Rightarrow> NaN | Some n \<Rightarrow> roundToDouble (of_int n))"

definition Number :: "string \<Rightarrow> jsnum" where
  "Number str =
     (let s = trim str
      in if s = [] then Finite 0
         else if take 2 s = ''0x'' \<or> take 2 s = ''0X'' then parseNonDecimal 16 (drop 2 s)
         else if take 2 s = ''0o'' \<or> take 2 s = ''0O'' then parseNonDecimal 8 (drop 2 s)
         else if take 2 s = ''0b'' \<or> take 2 s = ''0B'' then parseNonDecimal 2 (drop 2 s)
         else parseStrDecimalLiteral s)"

text \<open>\<^verbatim>\<open>Math.trunc\<close> on a finite number: the integer part, towards zero.\<close>

definition Math_trunc :: "rat \<Rightarrow> int" where
  "Math_trunc q = (if 0 \<le> q then \<lfloor>q\<rfloor> else \<lceil>q\<rceil>)"

section \<open>Configuration\<close>

text \<open>
  \<^verbatim>\<open>process.env\<close>: a variable is absent or holds a string.
\<close>

type_synonym env = "string \<rightharpoonup> string"

text \<open>
  \<^verbatim>\<open>clampInt(value, min, max, fallback)\<close>, the same function in \<^verbatim>\<open>generateReply.ts\<close>,
  \<^verbatim>\<open>openaiClient.ts\<close> and \<^verbatim>\<open>chatService.ts\<close>. The value is an environment variable, so
  \<^verbatim>\<open>typeof value === "string"\<close> is that the variable is set. A number that is not finite
  gives the fallback.
\<close>

definition clampInt :: "string option \<Rightarrow> int \<Rightarrow> int \<Rightarrow> int \<Rightarrow> int" where
  "clampInt value mn mx fallback =
     (let n = (case value of
                 Some v \<Rightarrow> if length (trim v) > 0 then Number v else NaN
               | None \<Rightarrow> NaN)
      in case n of
           Finite q \<Rightarrow> max mn (min mx (Math_trunc q))
         | _ \<Rightarrow> fallback)"

definition MAX_OUTPUT_TOKENS :: "env \<Rightarrow> int" where
  "MAX_OUTPUT_TOKENS env = clampInt (env ''LLM_MAX_OUTPUT_TOKENS'') 1 2000 250"

definition MAX_HISTORY_MESSAGES :: "env \<Rightarrow> int" where
  "MAX_HISTORY_MESSAGES env = clampInt (env ''LLM_HISTORY_LIMIT'') 1 100 20"

definition HISTORY_LIMIT :: "env \<Rightarrow> int" where
  "HISTORY_LIMIT env = clampInt (env ''LLM_HISTORY_LIMIT'') 1 100 20"

definition timeoutMs :: "env \<Rightarrow> int" where
  "timeoutMs env = clampInt (env ''LLM_TIMEOUT_MS'') 1000 120000 15000"


section \<open>The LLM layer (\<^verbatim>\<open>services/llm\<close>)\<close>

subsection \<open>Values thrown by the provider call\<close>

text \<open>
  A thrown value is \<^verbatim>\<open>unknown\<close> to the code: any JavaScript value. An object is the list
  of the properties a read finds on it, own or inherited.
\<close>

datatype jsval =
    JUndefined
  | JNull
  | JBoolean bool
  | JNumber jsnum
  | JString string
  | JObject "(string \<times> jsval) list"

text \<open>
  The optional read \<^verbatim>\<open>e?.k\<close>: \<^verbatim>\<open>undefined\<close> on \<^verbatim>\<open>null\<close> and \<^verbatim>\<open>undefined\<close>, and on a value
  that has no such property.
\<close>

fun getProp :: "jsval \<Rightarrow> string \<Rightarrow> jsval" where
  "getProp (JObject ps) k = (case map_of ps k of Some v \<Rightarrow> v | None \<Rightarrow> JUndefined)"
| "getProp _ k = JUndefined"

definition fallbackReply :: string where
  "fallbackReply = ''Sorry, I'm having trouble right now. Please try again in a moment.''"

text \<open>The two local constants \<^verbatim>\<open>status\<close> and \<^verbatim>\<open>code\<close> of \<^verbatim>\<open>classifyOpenAiError\<close>.\<close>

definition errStatus :: "jsval \<Rightarrow> jsnum option" where
  "errStatus e =
     (case getProp e ''status'' of
        JNumber n \<Rightarrow> Some n
      | _ \<Rightarrow> (case getProp e ''statusCode'' of
                JNumber n \<Rightarrow> Some n
              | _ \<Rightarrow> (case getProp (getProp e ''error'') ''status'' of
                        JNumber n \<Rightarrow> Some n
                      | _ \<Rightarrow> None)))"

definition errCode :: "jsval \<Rightarrow> string option" where
  "errCode e =
     (case getProp e ''code'' of
        JString c \<Rightarrow> Some c
      | _ \<Rightarrow> (case getProp (getProp e ''error'') ''code'' of
                JString c \<Rightarrow> Some c
              | _ \<Rightarrow> None))"

definition errName :: "jsval \<Rightarrow> string" where
  "errName e = (case getProp e ''name'' of JString n \<Rightarrow> n | _ \<Rightarrow> [])"

definition errMessage :: "jsval \<Rightarrow> string" where
  "errMessage e = (case getProp e ''message'' of JString m \<Rightarrow> m | _ \<Rightarrow> [])"

definition classifyOpenAiError :: "jsval \<Rightarrow> string" where
  "classifyOpenAiError err =
     (let status = errStatus err; code = errCode err
      in if status = Some (Finite 401) \<or> status = Some (Finite 403)
            \<or> code = Some ''invalid_api_key'' then ''invalid_api_key''
         else if status = Some (Finite 429) \<or> code = Some ''rate_limit_exceeded''
         then ''rate_limit''
         else if errName err = ''AbortError'' then ''timeout''
         else if code = Some ''ETIMEDOUT'' \<or> code = Some ''ECONNABORTED'' then ''timeout''
         else if includes_str (toLowerCase (errMessage err)) ''timeout''
                 \<or> includes_str (toLowerCase (errMessage err)) ''timed out''
         then ''timeout''
         else ''provider_error'')"

subsection \<open>The client (\<^verbatim>\<open>openaiClient.ts\<close>)\<close>

record OpenAiClientConfig =
  apiKey :: string
  cfg_model :: string

text \<open>The expression \<^verbatim>\<open>process.env.OPENAI_MODEL?.trim() || "gpt-4o-mini"\<close>.\<close>

definition envModelOrDefault :: "env \<Rightarrow> string" where
  "envModelOrDefault env =
     (case env ''OPENAI_MODEL'' of
        None \<Rightarrow> ''gpt-4o-mini''
      | Some m \<Rightarrow> if trim m = [] then ''gpt-4o-mini'' else trim m)"

definition getOpenAiConfigFromEnv :: "env \<Rightarrow> OpenAiClientConfig option" where
  "getOpenAiConfigFromEnv env =
     (case env ''OPENAI_API_KEY'' of
        None \<Rightarrow> None
      | Some k \<Rightarrow>
          if trim k = [] then None
          else Some \<lparr>apiKey = trim k, cfg_model = envModelOrDefault env\<rparr>)"

text \<open>\<^verbatim>\<open>new OpenAI({ apiKey, timeout })\<close>: the client is its two options.\<close>

record OpenAI =
  client_apiKey :: string
  client_timeout :: int

record OpenAiHandle =
  client :: OpenAI
  handle_model :: string

definition getOpenAiClientFromEnvOrNull :: "env \<Rightarrow> OpenAiHandle option" where
  "getOpenAiClientFromEnvOrNull env =
     (case getOpenAiConfigFromEnv env of
        None \<Rightarrow> None
      | Some cfg \<Rightarrow>
          Some \<lparr>client = \<lparr>client_apiKey = apiKey cfg, client_timeout = timeoutMs env\<rparr>,
                handle_model = cfg_model cfg\<rparr>)"

subsection \<open>The completion operation\<close>

datatype Role = system | user | assistant

record ChatCompletionMessageParam =
  role :: Role
  content :: string

record ChatCompletionRequest =
  req_model :: string
  req_messages :: "ChatCompletionMessageParam list"
  temperature :: rat
  max_tokens :: int

text \<open>
  A completion as the code reads it, \<^verbatim>\<open>completion.choices[0]?.message?.content\<close>: a list
  of choices, each with or without a message, whose content is a string or absent.
\<close>

record ChatCompletionMessage =
  msg_content :: "string option"

record Choice =
  choice_message :: "ChatCompletionMessage option"

record ChatCompletion =
  choices :: "Choice list"

text \<open>
  The provider call \<^verbatim>\<open>openai.client.chat.completions.create\<close> resolves to a completion or
  rejects with a value. The provider is outside the program: it is a parameter.
\<close>

datatype ProviderOutcome = Resolved ChatCompletion | Rejected jsval

type_synonym Provider = "OpenAI \<Rightarrow> ChatCompletionRequest \<Rightarrow> ProviderOutcome"

subsection \<open>\<^verbatim>\<open>generateReply.ts\<close>\<close>

text \<open>
  The two fixed texts of \<^verbatim>\<open>prompts.ts\<close>. No branch of the code looks at their content, so
  they are taken as given.
\<close>

record Prompts =
  SYSTEM_PROMPT :: string
  FAQ_KNOWLEDGE :: string

record GenerateReplyInput =
  history :: "ChatCompletionMessageParam list"

record ReplyMeta =
  provider :: string
  meta_model :: string
  usedFallback :: bool
  errorCode :: "string option"

record GenerateReplyResult =
  reply :: string
  meta :: ReplyMeta

text \<open>
  \<^verbatim>\<open>Array.prototype.slice(start)\<close>: a negative start counts from the end, and is 0 when it
  reaches before the beginning.
\<close>

definition slice_from :: "int \<Rightarrow> 'a list \<Rightarrow> 'a list" where
  "slice_from start xs =
     (let len = int (length xs);
          k = (if start < 0 then max (len + start) 0 else min start len)
      in drop (nat k) xs)"

definition fallbackResult :: "string \<Rightarrow> string \<Rightarrow> GenerateReplyResult" where
  "fallbackResult m code =
     \<lparr>reply = fallbackReply,
      meta = \<lparr>provider = ''openai'', meta_model = m, usedFallback = True, errorCode = Some code\<rparr>\<rparr>"

text \<open>\<^verbatim>\<open>completion.choices[0]?.message?.content\<close>; \<open>None\<close> is \<^verbatim>\<open>undefined\<close> or \<^verbatim>\<open>null\<close>.\<close>

definition firstContent :: "ChatCompletion \<Rightarrow> string option" where
  "firstContent completion =
     (case choices completion of
        [] \<Rightarrow> None
      | c # _ \<Rightarrow> (case choice_message c of None \<Rightarrow> None | Some m \<Rightarrow> msg_content m))"

definition buildRequest :: "env \<Rightarrow> Prompts \<Rightarrow> OpenAiHandle \<Rightarrow> GenerateReplyInput \<Rightarrow> ChatCompletionRequest" where
  "buildRequest env prompts openai input =
     (let boundedHistory = slice_from (- MAX_HISTORY_MESSAGES env) (history input)
      in \<lparr>req_model = handle_model openai,
          req_messages =
            [\<lparr>role = system, content = SYSTEM_PROMPT prompts\<rparr>,
             \<lparr>role = system, content = FAQ_KNOWLEDGE prompts\<rparr>]
            @ map (\<lambda>m. \<lparr>role = role m, content = content m\<rparr>) boundedHistory,
          temperature = 3 / 10,
          max_tokens = MAX_OUTPUT_TOKENS env\<rparr>)"

text \<open>
  The body of the \<^verbatim>\<open>try\<close> block. The result is the value returned (\<open>Inr\<close>) or thrown
  (\<open>Inl\<close>), with the requests that were sent to the provider, in order.
\<close>

definition generateReply_try ::
  "env \<Rightarrow> Prompts \<Rightarrow> Provider \<Rightarrow> GenerateReplyInput
     \<Rightarrow> (jsval + GenerateReplyResult) \<times> ChatCompletionRequest list" where
  "generateReply_try env prompts call input =
     (case getOpenAiClientFromEnvOrNull env of
        None \<Rightarrow> (Inr (fallbackResult (envModelOrDefault env) ''missing_api_key''), [])
      | Some openai \<Rightarrow>
          (let request = buildRequest env prompts openai input
           in case call (client openai) request of
                Rejected err \<Rightarrow> (Inl err, [request])
              | Resolved completion \<Rightarrow>
                  (case map_option trim (firstContent completion) of
                     None \<Rightarrow> (Inr (fallbackResult (handle_model openai) ''empty_response''), [request])
                   | Some r \<Rightarrow>
                       if r = [] then
                         (Inr (fallbackResult (handle_model openai) ''empty_response''), [request])
                       else
                         (Inr \<lparr>reply = r,
                               meta = \<lparr>provider = ''openai'', meta_model = handle_model openai,
                                       usedFallback = False, errorCode = None\<rparr>\<rparr>,
                          [request]))))"

text \<open>
  \<^verbatim>\<open>generateReply\<close>: the \<^verbatim>\<open>try\<close> block under its \<^verbatim>\<open>catch\<close>. \<open>Inl\<close> would be a rejection of
  the promise it returns.
\<close>

definition generateReply ::
  "env \<Rightarrow> Prompts \<Rightarrow> Provider \<Rightarrow> GenerateReplyInput
     \<Rightarrow> (jsval + GenerateReplyResult) \<times> ChatCompletionRequest list" where
  "generateReply env prompts call input =
     (case generateReply_try env prompts call input of
        (Inr result, sent) \<Rightarrow> (Inr result, sent)
      | (Inl err, sent) \<Rightarrow>
          (Inr (fallbackResult (envModelOrDefault env) (classifyOpenAiError err)), sent))"


section \<open>The data store (\<^verbatim>\<open>db/repositories\<close>)\<close>

text \<open>
  The two tables of the migration. A time is a count of milliseconds since the epoch;
  the metadata column holds a JSON value or nothing. Rows are kept in the order of their
  insertion.
\<close>

record Conversation =
  conv_id :: string
  conv_createdAt :: int
  updatedAt :: int
  channel :: string
  externalConversationId :: "string option"
  title :: "string option"

record Message =
  msg_id :: string
  createdAt :: int
  conversationId :: string
  direction :: string
  msg_text :: string
  externalMessageId :: "string option"
  metadata :: "jsval option"

record Db =
  conversations :: "Conversation list"
  messages :: "Message list"

text \<open>
  The identifier and the time of a new row are chosen by the storage engine (the column
  defaults): each create takes them as a pair.
\<close>

type_synonym Generated = "string \<times> int"

record CreateConversationInput =
  cc_channel :: string
  cc_title :: "string option"
  cc_externalConversationId :: "string option option"

definition createConversation :: "Generated \<Rightarrow> CreateConversationInput \<Rightarrow> Db \<Rightarrow> Conversation \<times> Db" where
  "createConversation gen input db =
     (let c = \<lparr>conv_id = fst gen, conv_createdAt = snd gen, updatedAt = snd gen,
                channel = cc_channel input,
                externalConversationId =
                  (case cc_externalConversationId input of None \<Rightarrow> None | Some e \<Rightarrow> e),
                title = (case cc_title input of
                           None \<Rightarrow> None
                         | Some t \<Rightarrow> if t = [] then None else Some t)\<rparr>
      in (c, db\<lparr>conversations := conversations db @ [c]\<rparr>))"

text \<open>\<^verbatim>\<open>findUnique({ where: { id } })\<close> on the primary key.\<close>

definition findConversationById :: "Db \<Rightarrow> string \<Rightarrow> Conversation option" where
  "findConversationById db i = find (\<lambda>c. conv_id c = i) (conversations db)"

record CreateMessageInput =
  cm_conversationId :: string
  cm_direction :: string
  cm_content :: string
  cm_metadata :: "jsval option"

text \<open>
  The truth value of a JavaScript value in a condition: \<^verbatim>\<open>undefined\<close>, \<^verbatim>\<open>null\<close>, \<^verbatim>\<open>false\<close>,
  zero, not-a-number and the empty string are false, every other value is true.
\<close>

fun truthy :: "jsval \<Rightarrow> bool" where
  "truthy JUndefined = False"
| "truthy JNull = False"
| "truthy (JBoolean b) = b"
| "truthy (JNumber n) = (n \<noteq> NaN \<and> n \<noteq> Finite 0)"
| "truthy (JString s) = (s \<noteq> [])"
| "truthy (JObject ps) = True"

text \<open>The metadata is written only when it is given and true as a condition.\<close>

definition createMessage :: "Generated \<Rightarrow> CreateMessageInput \<Rightarrow> Db \<Rightarrow> Message \<times> Db" where
  "createMessage gen input db =
     (let m = \<lparr>msg_id = fst gen, createdAt = snd gen,
                conversationId = cm_conversationId input,
                direction = cm_direction input,
                msg_text = cm_content input,
                externalMessageId = None,
                metadata = (case cm_metadata input of
                              None \<Rightarrow> None
                            | Some v \<Rightarrow> if truthy v then Some v else None)\<rparr>
      in (m, db\<lparr>messages := messages db @ [m]\<rparr>))"

text \<open>
  Modelled from the spec: the query engine behind \<^verbatim>\<open>findMany\<close> is not part of the sources.
  The queries order by the creation time alone, and the spec breaks ties by insertion
  order: in either direction the result is the stable sort of the rows, so rows of equal
  creation time keep the order of their insertion, in the descending result too.
  \<^verbatim>\<open>take\<close> keeps the first rows of the ordered result.
\<close>

definition orderBy_createdAt_asc :: "Message list \<Rightarrow> Message list" where
  "orderBy_createdAt_asc rows = sort_key createdAt rows"

definition orderBy_createdAt_desc :: "Message list \<Rightarrow> Message list" where
  "orderBy_createdAt_desc rows = sort_key (\<lambda>m. - createdAt m) rows"

definition whereConversationId :: "string \<Rightarrow> Db \<Rightarrow> Message list" where
  "whereConversationId cid db = filter (\<lambda>m. conversationId m = cid) (messages db)"

definition listMessagesByConversationId :: "Db \<Rightarrow> string \<Rightarrow> Message list" where
  "listMessagesByConversationId db cid = orderBy_createdAt_asc (whereConversationId cid db)"

text \<open>
  The limit is a count of rows; the one caller passes \<^verbatim>\<open>HISTORY_LIMIT\<close>, which is at
  least 1.
\<close>

definition listRecentMessagesByConversationId :: "Db \<Rightarrow> string \<Rightarrow> nat \<Rightarrow> Message list" where
  "listRecentMessagesByConversationId db cid limit =
     (let recent = take limit (orderBy_createdAt_desc (whereConversationId cid db))
      in rev recent)"

section \<open>The chat service (\<^verbatim>\<open>services/chat/chatService.ts\<close>)\<close>

record ApiError =
  statusCode :: int
  code :: string
  err_message :: string

text \<open>
  The error with which the framework refuses a request that fails the schema of its
  route; the error handler of the server reads its status code and its code.
\<close>

record FastifyError =
  fe_statusCode :: int
  fe_code :: string

text \<open>
  What an operation throws: an \<^verbatim>\<open>ApiError\<close> of the service or of a route, the
  framework's error, or a value that came up from the LLM layer.
\<close>

datatype Thrown = ThrownApiError ApiError | ThrownFastifyError FastifyError | ThrownValue jsval

record SendMessageInput =
  sm_message :: string
  sm_sessionId :: "string option"

record SendMessageResult =
  sm_reply :: string
  sm_resultSessionId :: string

record ChatMessageDto =
  dto_id :: string
  dto_direction :: string
  dto_content :: string
  dto_createdAt :: string

record GetChatSessionResult =
  gs_reply :: string
  gs_sessionId :: string
  gs_messages :: "ChatMessageDto list"

definition toLlmRole :: "string \<Rightarrow> Role" where
  "toLlmRole d = (if d = ''inbound'' then user else assistant)"

text \<open>The identifiers and times the storage engine gives to the rows of one send.\<close>

record SendGenerated =
  gen_conversation :: Generated
  gen_inbound :: Generated
  gen_outbound :: Generated

text \<open>The metadata object \<^verbatim>\<open>{ llm: safeLlmMeta }\<close> stored with the outbound message.\<close>

definition safeLlmMeta :: "ReplyMeta \<Rightarrow> jsval" where
  "safeLlmMeta m =
     JObject
       ([(''provider'', JString (provider m)),
         (''model'', JString (meta_model m)),
         (''usedFallback'', JBoolean (usedFallback m))]
        @ (case errorCode m of
             None \<Rightarrow> []
           | Some c \<Rightarrow> if c = [] then [] else [(''errorCode'', JString c)]))"

definition sendChatMessage ::
  "env \<Rightarrow> Prompts \<Rightarrow> Provider \<Rightarrow> SendGenerated \<Rightarrow> SendMessageInput \<Rightarrow> Db
     \<Rightarrow> (Thrown + SendMessageResult) \<times> Db" where
  "sendChatMessage env prompts call gen input db =
     (let normalizedSessionId = map_option trim (sm_sessionId input);
          found =
            (case normalizedSessionId of
               Some (c # cs) \<Rightarrow> (findConversationById db (c # cs), db)
             | _ \<Rightarrow> (case createConversation (gen_conversation gen)
                            \<lparr>cc_channel = ''web'', cc_title = Some ''Web session'',
                             cc_externalConversationId = None\<rparr> db of
                        (c, db') \<Rightarrow> (Some c, db')))
      in case found of
           (None, db1) \<Rightarrow>
             (Inl (ThrownApiError
                     \<lparr>statusCode = 404, code = ''invalid_session'',
                      err_message = ''Session not found''\<rparr>), db1)
         | (Some conversation, db1) \<Rightarrow>
             (let userText = trim (sm_message input);
                  db2 = snd (createMessage (gen_inbound gen)
                               \<lparr>cm_conversationId = conv_id conversation,
                                cm_direction = ''inbound'', cm_content = userText,
                                cm_metadata = None\<rparr> db1);
                  hist = listRecentMessagesByConversationId db2 (conv_id conversation)
                           (nat (HISTORY_LIMIT env))
              in case fst (generateReply env prompts call
                             \<lparr>history = map (\<lambda>m. \<lparr>role = toLlmRole (direction m),
                                                    content = msg_text m\<rparr>) hist\<rparr>) of
                   Inl err \<Rightarrow> (Inl (ThrownValue err), db2)
                 | Inr result \<Rightarrow>
                     (let db3 = snd (createMessage (gen_outbound gen)
                                       \<lparr>cm_conversationId = conv_id conversation,
                                        cm_direction = ''outbound'', cm_content = reply result,
                                        cm_metadata =
                                          Some (JObject [(''llm'', safeLlmMeta (meta result))])\<rparr>
                                       db2)
                      in (Inr \<lparr>sm_reply = reply result,
                               sm_resultSessionId = conv_id conversation\<rparr>, db3))))"


text \<open>
  \<^verbatim>\<open>Date.prototype.toISOString\<close> of a valid time value, as the stored times are: the day
  number is turned into a date of the proleptic Gregorian calendar, and the fields are
  written with a fixed number of digits. A year outside 0 to 9999 is written with a sign
  and six digits.
\<close>

definition digitChar :: "int \<Rightarrow> char" where
  "digitChar d = ''0123456789'' ! nat (d mod 10)"

definition pad2 :: "int \<Rightarrow> string" where
  "pad2 n = [digitChar (n div 10), digitChar n]"

definition pad3 :: "int \<Rightarrow> string" where
  "pad3 n = digitChar (n div 100) # pad2 n"

definition pad4 :: "int \<Rightarrow> string" where
  "pad4 n = digitChar (n div 1000) # pad3 n"

definition yearString :: "int \<Rightarrow> string" where
  "yearString y =
     (if 0 \<le> y \<and> y \<le> 9999 then pad4 y
      else (if y < 0 then CHR ''-'' else CHR ''+'')
           # digitChar (\<bar>y\<bar> div 100000) # digitChar (\<bar>y\<bar> div 10000) # pad4 \<bar>y\<bar>)"

definition timeString :: "int \<Rightarrow> string" where
  "timeString ms =
     pad2 (ms div 3600000) @ '':'' @ pad2 (ms div 60000 mod 60) @ '':''
     @ pad2 (ms div 1000 mod 60) @ ''.'' @ pad3 (ms mod 1000)"

text \<open>
  The date of a day number, counted from 1 March of year 0 in eras of 400 years
  (146097 days): the year of the era, the day of that year, and the month and the day
  of the month, the year running from March.
\<close>

definition yearOfEra :: "int \<Rightarrow> int" where
  "yearOfEra doe = (doe - doe div 1460 + doe div 36524 - doe div 146096) div 365"

definition dayOfYear :: "int \<Rightarrow> int" where
  "dayOfYear doe = doe - (365 * yearOfEra doe + yearOfEra doe div 4 - yearOfEra doe div 100)"

definition monthOf :: "int \<Rightarrow> int" where
  "monthOf doy =
     (if (5 * doy + 2) div 153 < 10 then (5 * doy + 2) div 153 + 3
      else (5 * doy + 2) div 153 - 9)"

definition dayOfMonth :: "int \<Rightarrow> int" where
  "dayOfMonth doy = doy - (153 * ((5 * doy + 2) div 153) + 2) div 5 + 1"

definition yearOf :: "int \<Rightarrow> int" where
  "yearOf z =
     yearOfEra (z mod 146097) + (z div 146097) * 400
     + (if monthOf (dayOfYear (z mod 146097)) \<le> 2 then 1 else 0)"

definition dateString :: "int \<Rightarrow> string" where
  "dateString z =
     yearString (yearOf z) @ ''-'' @ pad2 (monthOf (dayOfYear (z mod 146097)))
     @ ''-'' @ pad2 (dayOfMonth (dayOfYear (z mod 146097)))"

definition toISOString :: "int \<Rightarrow> string" where
  "toISOString t =
     dateString (t div 86400000 + 719468) @ ''T'' @ timeString (t mod 86400000) @ ''Z''"

text \<open>
  \<^verbatim>\<open>getChatSession\<close> only reads; it is given the store and leaves it as it is.
\<close>

definition toDto :: "Message \<Rightarrow> ChatMessageDto" where
  "toDto m =
     \<lparr>dto_id = msg_id m, dto_direction = direction m, dto_content = msg_text m,
      dto_createdAt = toISOString (createdAt m)\<rparr>"

definition getChatSession :: "string \<Rightarrow> Db \<Rightarrow> (Thrown + GetChatSessionResult) \<times> Db" where
  "getChatSession sessionId db =
     (case findConversationById db sessionId of
        None \<Rightarrow>
          (Inl (ThrownApiError
                  \<lparr>statusCode = 404, code = ''not_found'',
                   err_message = ''Conversation not found''\<rparr>), db)
      | Some conversation \<Rightarrow>
          (let msgs = listMessagesByConversationId db (conv_id conversation);
               lastOutbound = find (\<lambda>m. direction m = ''outbound'') (rev msgs)
           in (Inr \<lparr>gs_reply = (case lastOutbound of None \<Rightarrow> [] | Some m \<Rightarrow> msg_text m),
                    gs_sessionId = conv_id conversation,
                    gs_messages = map toDto msgs\<rparr>, db)))"

section \<open>The routes (\<^verbatim>\<open>routes/chat.ts\<close>)\<close>

record SendMessageBody =
  body_message :: string
  body_sessionId :: "string option"

text \<open>
  \<^verbatim>\<open>SendMessageBodySchema\<close>: the message has 1 to 4000 characters, and a session
  identifier, when one is given, has at least one.
\<close>

definition SendMessageBodySchema :: "SendMessageBody \<Rightarrow> bool" where
  "SendMessageBodySchema body =
     (1 \<le> length (body_message body) \<and> length (body_message body) \<le> 4000
      \<and> (case body_sessionId body of None \<Rightarrow> True | Some sid \<Rightarrow> 1 \<le> length sid))"

text \<open>The handler function registered for \<^verbatim>\<open>POST /chat/message\<close>.\<close>

definition postChatMessage_handler ::
  "env \<Rightarrow> Prompts \<Rightarrow> Provider \<Rightarrow> SendGenerated \<Rightarrow> SendMessageBody \<Rightarrow> Db
     \<Rightarrow> (Thrown + SendMessageResult) \<times> Db" where
  "postChatMessage_handler env prompts call gen body db =
     (if length (trim (body_message body)) = 0 then
        (Inl (ThrownApiError
                \<lparr>statusCode = 400, code = ''empty_message'',
                 err_message = ''Message must not be empty''\<rparr>), db)
      else
        sendChatMessage env prompts call gen
          \<lparr>sm_message = body_message body,
           sm_sessionId = (case body_sessionId body of
                             Some (c # cs) \<Rightarrow> Some (c # cs)
                           | _ \<Rightarrow> None)\<rparr> db)"

text \<open>
  The route \<^verbatim>\<open>POST /chat/message\<close>: the framework checks the body against the schema and
  refuses it with its validation error, status 400 and code \<^verbatim>\<open>FST_ERR_VALIDATION\<close>,
  before the handler runs; the handler sees the bodies that pass.
\<close>

definition postChatMessage ::
  "env \<Rightarrow> Prompts \<Rightarrow> Provider \<Rightarrow> SendGenerated \<Rightarrow> SendMessageBody \<Rightarrow> Db
     \<Rightarrow> (Thrown + SendMessageResult) \<times> Db" where
  "postChatMessage env prompts call gen body db =
     (if SendMessageBodySchema body then postChatMessage_handler env prompts call gen body db
      else (Inl (ThrownFastifyError
                   \<lparr>fe_statusCode = 400, fe_code = ''FST_ERR_VALIDATION''\<rparr>), db))"

text \<open>The handler of \<^verbatim>\<open>GET /chat/:sessionId\<close>.\<close>

definition getChatSessionRoute :: "string \<Rightarrow> Db \<Rightarrow> (Thrown + GetChatSessionResult) \<times> Db" where
  "getChatSessionRoute sessionId db = getChatSession sessionId db"


section \<open>Notions the properties are stated with\<close>

text \<open>
  What a thrown value carries, read off the value itself: its status is the first
  number among its \<^verbatim>\<open>status\<close>, its \<^verbatim>\<open>statusCode\<close> and the \<^verbatim>\<open>status\<close> of its \<^verbatim>\<open>error\<close>; its code
  is the first text among its \<^verbatim>\<open>code\<close> and the \<^verbatim>\<open>code\<close> of its \<^verbatim>\<open>error\<close>.
\<close>

definition numberAt :: "jsval \<Rightarrow> jsnum option" where
  "numberAt v = (case v of JNumber n \<Rightarrow> Some n | _ \<Rightarrow> None)"

definition stringAt :: "jsval \<Rightarrow> string option" where
  "stringAt v = (case v of JString t \<Rightarrow> Some t | _ \<Rightarrow> None)"

fun firstSome :: "'a option list \<Rightarrow> 'a option" where
  "firstSome [] = None"
| "firstSome (Some x # _) = Some x"
| "firstSome (None # xs) = firstSome xs"

definition failureStatus :: "jsval \<Rightarrow> jsnum option" where
  "failureStatus e =
     firstSome [numberAt (getProp e ''status''), numberAt (getProp e ''statusCode''),
                numberAt (getProp (getProp e ''error'') ''status'')]"

definition failureCode :: "jsval \<Rightarrow> string option" where
  "failureCode e =
     firstSome [stringAt (getProp e ''code''), stringAt (getProp (getProp e ''error'') ''code'')]"

text \<open>
  The three conditions on a thrown value that the classification is said to test, in
  the order of their precedence: an unauthorized or forbidden status or the
  invalid-credential code; the rate-limit status or code; the name of an abort, a
  timeout code, or a message that mentions a timeout in any letter case.
\<close>

definition unauthorized :: "jsval \<Rightarrow> bool" where
  "unauthorized e =
     (failureStatus e = Some (Finite 401) \<or> failureStatus e = Some (Finite 403)
      \<or> failureCode e = Some ''invalid_api_key'')"

definition rateLimited :: "jsval \<Rightarrow> bool" where
  "rateLimited e =
     (failureStatus e = Some (Finite 429) \<or> failureCode e = Some ''rate_limit_exceeded'')"

definition timedOut :: "jsval \<Rightarrow> bool" where
  "timedOut e =
     (getProp e ''name'' = JString ''AbortError''
      \<or> failureCode e = Some ''ETIMEDOUT'' \<or> failureCode e = Some ''ECONNABORTED''
      \<or> (case getProp e ''message'' of
            JString m \<Rightarrow> includes_str (toLowerCase m) ''timeout''
                          \<or> includes_str (toLowerCase m) ''timed out''
          | _ \<Rightarrow> False))"

text \<open>
  The configuration rule in the words of the specification: the default when the value
  is absent, blank or not a number, and otherwise the number, truncated to an integer
  and clamped into the range. An infinite number clamps to the bound on its side.
\<close>

definition clampInt_as_specified :: "string option \<Rightarrow> int \<Rightarrow> int \<Rightarrow> int \<Rightarrow> int" where
  "clampInt_as_specified value mn mx d =
     (case value of
        None \<Rightarrow> d
      | Some v \<Rightarrow>
          if trim v = [] \<or> Number v = NaN then d
          else (case Number v of
                  Finite q \<Rightarrow> max mn (min mx (Math_trunc q))
                | PosInfinity \<Rightarrow> max mn mx
                | NegInfinity \<Rightarrow> mn
                | NaN \<Rightarrow> d))"




section \<open>Sample values\<close>

text \<open>A store with two conversations, its rows not in the order of their times.\<close>

definition samplePrompts :: Prompts where
  "samplePrompts = \<lparr>SYSTEM_PROMPT = ''S'', FAQ_KNOWLEDGE = ''F''\<rparr>"

definition conversation1 :: Conversation where
  "conversation1 =
     \<lparr>conv_id = ''c1'', conv_createdAt = 1766250000000, updatedAt = 1766250000000,
      channel = ''web'', externalConversationId = None, title = Some ''Web session''\<rparr>"

definition message1 :: Message where
  "message1 =
     \<lparr>msg_id = ''m1'', createdAt = 1766250000000, conversationId = ''c1'',
      direction = ''inbound'', msg_text = ''hello'', externalMessageId = None,
      metadata = None\<rparr>"

definition message2 :: Message where
  "message2 =
     \<lparr>msg_id = ''m2'', createdAt = 1766250001500, conversationId = ''c1'',
      direction = ''outbound'', msg_text = ''hi there'', externalMessageId = None,
      metadata = None\<rparr>"

definition message3 :: Message where
  "message3 =
     \<lparr>msg_id = ''m3'', createdAt = 1766250060000, conversationId = ''c1'',
      direction = ''inbound'', msg_text = ''thanks'', externalMessageId = None,
      metadata = None\<rparr>"

definition message4 :: Message where
  "message4 =
     \<lparr>msg_id = ''m4'', createdAt = 1766250000500, conversationId = ''c2'',
      direction = ''outbound'', msg_text = ''elsewhere'', externalMessageId = None,
      metadata = None\<rparr>"

definition sampleDb :: Db where
  "sampleDb =
     \<lparr>conversations = [conversation1],
      messages = [message3, message1, message4, message2]\<rparr>"







definition sampleGenerated :: SendGenerated where
  "sampleGenerated =
     \<lparr>gen_conversation = (''c9'', 1766250100000), gen_inbound = (''m8'', 1766250100001),
      gen_outbound = (''m9'', 1766250100900)\<rparr>"

definition sampleHistory :: "ChatCompletionMessageParam list" where
  "sampleHistory =
     [\<lparr>role = user, content = ''hello''\<rparr>, \<lparr>role = assistant, content = ''hi there''\<rparr>,
      \<lparr>role = user, content = ''thanks''\<rparr>]"

section \<open>Evaluation of numbers\<close>

lemma floor_rat_numeral: "\<lfloor>numeral a / numeral b :: rat\<rfloor> = numeral a div numeral b"
  by (metis floor_divide_of_int_eq of_int_numeral)

lemmas parse_eval = Number_def trim_def isWhiteSpace_def parseStrDecimalLiteral_def
  parseUnsignedDecimal_def isDigitIn_def digitVal_def digitsValue_def parseSignedInteger_def
  parseDigits_def parseNonDecimal_def pow10_def

lemma Number_1e309: "Number ''1e309'' = PosInfinity"
  by (simp add: parse_eval roundToDouble_def overflowBound_def)

lemma Number_Infinity: "Number ''Infinity'' = PosInfinity"
  by (simp add: parse_eval)

lemma roundToDouble_250: "roundToDouble 250 = Finite 250"
  apply (simp add: roundToDouble_def overflowBound_def)
  apply (simp add: floorLog2_def compute_bitlen)
  apply (simp add: pow2_def Let_def)
  apply (simp add: roundHalfEven_def Let_def floor_rat_numeral)
  done

lemma Number_250: "Number ''250'' = Finite 250"
  by (simp add: parse_eval roundToDouble_250)

lemma roundToDouble_12_7:
  "roundToDouble (127 / 10) = Finite (3574732204225331 / 281474976710656)"
  apply (simp add: roundToDouble_def overflowBound_def)
  apply (simp add: floorLog2_def compute_bitlen floor_rat_numeral)
  apply (simp add: pow2_def Let_def)
  apply (simp add: roundHalfEven_def Let_def floor_rat_numeral)
  done

lemma Number_12_7: "Number '' 12.7 '' = Finite (3574732204225331 / 281474976710656)"
  by (simp add: parse_eval roundToDouble_12_7)

lemma Number_abc: "Number ''abc'' = NaN"
  by (simp add: parse_eval)

section \<open>Configuration values\<close>

lemma clampInt_cases:
  "clampInt value mn mx d =
     (case value of
        None \<Rightarrow> d
      | Some v \<Rightarrow>
          if trim v = [] then d
          else (case Number v of Finite q \<Rightarrow> max mn (min mx (Math_trunc q)) | _ \<Rightarrow> d))"
  by (simp add: clampInt_def split: option.split)

lemma clampInt_range:
  assumes "mn \<le> mx" "mn \<le> d" "d \<le> mx"
  shows "mn \<le> clampInt value mn mx d \<and> clampInt value mn mx d \<le> mx"
  using assms by (auto simp: clampInt_cases split: option.split jsnum.split)

text \<open>
  C8, with the numbers that are not finite put on the side of the default. Each
  configuration parameter is its default when the variable is
  absent, blank, not a number, or a number that is not finite (an infinity, as
  \<^verbatim>\<open>Infinity\<close> or a literal beyond the range of a double gives); otherwise it is the
  number, truncated towards zero and clamped into the range. In every case the value
  lies in the range: the history limit in 1 to 100, the output cap in 1 to 2000, the
  timeout in 1000 to 120000.
\<close>

theorem config_clamped:
  "clampInt value mn mx d =
     (case value of
        None \<Rightarrow> d
      | Some v \<Rightarrow>
          if trim v = [] \<or> Number v = NaN \<or> Number v = PosInfinity \<or> Number v = NegInfinity
          then d
          else (case Number v of Finite q \<Rightarrow> max mn (min mx (Math_trunc q)) | _ \<Rightarrow> d))
   \<and> HISTORY_LIMIT env = clampInt (env ''LLM_HISTORY_LIMIT'') 1 100 20
   \<and> MAX_HISTORY_MESSAGES env = clampInt (env ''LLM_HISTORY_LIMIT'') 1 100 20
   \<and> MAX_OUTPUT_TOKENS env = clampInt (env ''LLM_MAX_OUTPUT_TOKENS'') 1 2000 250
   \<and> timeoutMs env = clampInt (env ''LLM_TIMEOUT_MS'') 1000 120000 15000
   \<and> 1 \<le> HISTORY_LIMIT env \<and> HISTORY_LIMIT env \<le> 100
   \<and> 1 \<le> MAX_HISTORY_MESSAGES env \<and> MAX_HISTORY_MESSAGES env \<le> 100
   \<and> 1 \<le> MAX_OUTPUT_TOKENS env \<and> MAX_OUTPUT_TOKENS env \<le> 2000
   \<and> 1000 \<le> timeoutMs env \<and> timeoutMs env \<le> 120000"
proof -
  have shape: "clampInt value mn mx d =
     (case value of
        None \<Rightarrow> d
      | Some v \<Rightarrow>
          if trim v = [] \<or> Number v = NaN \<or> Number v = PosInfinity \<or> Number v = NegInfinity
          then d
          else (case Number v of Finite q \<Rightarrow> max mn (min mx (Math_trunc q)) | _ \<Rightarrow> d))"
    by (simp add: clampInt_cases split: option.split jsnum.split)
  have h: "1 \<le> HISTORY_LIMIT env \<and> HISTORY_LIMIT env \<le> 100"
    unfolding HISTORY_LIMIT_def by (rule clampInt_range) simp_all
  have m: "1 \<le> MAX_HISTORY_MESSAGES env \<and> MAX_HISTORY_MESSAGES env \<le> 100"
    unfolding MAX_HISTORY_MESSAGES_def by (rule clampInt_range) simp_all
  have t: "1 \<le> MAX_OUTPUT_TOKENS env \<and> MAX_OUTPUT_TOKENS env \<le> 2000"
    unfolding MAX_OUTPUT_TOKENS_def by (rule clampInt_range) simp_all
  have ms: "1000 \<le> timeoutMs env \<and> timeoutMs env \<le> 120000"
    unfolding timeoutMs_def by (rule clampInt_range) simp_all
  show ?thesis
    using shape h m t ms
    by (simp add: HISTORY_LIMIT_def MAX_HISTORY_MESSAGES_def MAX_OUTPUT_TOKENS_def timeoutMs_def)
qed

text \<open>
  The theorem at set variables: 250 is clamped to 100, 12.7 is truncated to 12, a text
  that is no number gives 20, and so does an absent variable.
\<close>

theorem config_clamped_witness:
  "clampInt (Some ''250'') 1 100 20 = 100
   \<and> clampInt (Some '' 12.7 '') 1 100 20 = 12
   \<and> clampInt (Some ''abc'') 1 100 20 = 20
   \<and> clampInt None 1 100 20 = 20
   \<and> MAX_HISTORY_MESSAGES [''LLM_HISTORY_LIMIT'' \<mapsto> ''250''] = 100"
proof -
  have a: "clampInt (Some ''250'') 1 100 20 = 100"
    using config_clamped [of "Some ''250''" 1 100 20 Map.empty]
    by (simp add: Number_250 Math_trunc_def trim_def isWhiteSpace_def)
  have b: "clampInt (Some '' 12.7 '') 1 100 20 = 12"
    using config_clamped [of "Some '' 12.7 ''" 1 100 20 Map.empty]
    by (simp add: Number_12_7 Math_trunc_def trim_def isWhiteSpace_def floor_rat_numeral)
  have c: "clampInt (Some ''abc'') 1 100 20 = 20"
    using config_clamped [of "Some ''abc''" 1 100 20 Map.empty]
    by (simp add: Number_abc)
  have d: "clampInt None 1 100 20 = 20"
    using config_clamped [of None 1 100 20 Map.empty] by simp
  show ?thesis using a b c d by (simp add: MAX_HISTORY_MESSAGES_def)
qed

text \<open>
  C8 as it is stated fails where the variable holds a number that is not finite: the
  literal \<^verbatim>\<open>1e309\<close> is a number, beyond every range, and the stated rule clamps it to
  the upper bound 100, while the code falls back to the default 20.
\<close>

theorem config_as_specified_counterexample:
  "Number ''1e309'' \<noteq> NaN
   \<and> clampInt_as_specified (Some ''1e309'') 1 100 20 = 100
   \<and> MAX_HISTORY_MESSAGES [''LLM_HISTORY_LIMIT'' \<mapsto> ''1e309''] = 20"
  by (simp add: clampInt_as_specified_def MAX_HISTORY_MESSAGES_def clampInt_cases
      Number_1e309 trim_def isWhiteSpace_def)



section \<open>The reply generator\<close>

lemma client_None_iff:
  "getOpenAiClientFromEnvOrNull env = None \<longleftrightarrow>
     (env ''OPENAI_API_KEY'' = None \<or> (\<exists>k. env ''OPENAI_API_KEY'' = Some k \<and> trim k = []))"
  by (auto simp: getOpenAiClientFromEnvOrNull_def getOpenAiConfigFromEnv_def
      split: option.splits if_splits)

lemma client_model:
  "getOpenAiClientFromEnvOrNull env = Some openai \<Longrightarrow> handle_model openai = envModelOrDefault env"
  by (auto simp: getOpenAiClientFromEnvOrNull_def getOpenAiConfigFromEnv_def
      split: option.splits if_splits)

lemma generateReply_no_client:
  "getOpenAiClientFromEnvOrNull env = None \<Longrightarrow>
   generateReply env prompts call input =
     (Inr (fallbackResult (envModelOrDefault env) ''missing_api_key''), [])"
  by (simp add: generateReply_def generateReply_try_def)

lemma generateReply_rejected:
  "getOpenAiClientFromEnvOrNull env = Some openai \<Longrightarrow>
   call (client openai) (buildRequest env prompts openai input) = Rejected err \<Longrightarrow>
   generateReply env prompts call input =
     (Inr (fallbackResult (envModelOrDefault env) (classifyOpenAiError err)),
      [buildRequest env prompts openai input])"
  by (simp add: generateReply_def generateReply_try_def Let_def)

lemma generateReply_resolved:
  "getOpenAiClientFromEnvOrNull env = Some openai \<Longrightarrow>
   call (client openai) (buildRequest env prompts openai input) = Resolved completion \<Longrightarrow>
   generateReply env prompts call input =
     (case firstContent completion of
        None \<Rightarrow> Inr (fallbackResult (handle_model openai) ''empty_response'')
      | Some c \<Rightarrow>
          if trim c = [] then Inr (fallbackResult (handle_model openai) ''empty_response'')
          else Inr \<lparr>reply = trim c,
                    meta = \<lparr>provider = ''openai'', meta_model = handle_model openai,
                            usedFallback = False, errorCode = None\<rparr>\<rparr>,
      [buildRequest env prompts openai input])"
  by (simp add: generateReply_def generateReply_try_def Let_def split: option.split)

text \<open>What the classification reads is what the thrown value carries.\<close>

lemma errStatus_carried: "errStatus e = failureStatus e"
  by (simp add: errStatus_def failureStatus_def numberAt_def split: jsval.split)

lemma errCode_carried: "errCode e = failureCode e"
  by (simp add: errCode_def failureCode_def stringAt_def split: jsval.split)

lemma errName_carried: "(errName e = ''AbortError'') = (getProp e ''name'' = JString ''AbortError'')"
  by (simp add: errName_def split: jsval.split)

lemma errMessage_carried:
  "(includes_str (toLowerCase (errMessage e)) ''timeout''
    \<or> includes_str (toLowerCase (errMessage e)) ''timed out'')
   = (case getProp e ''message'' of
        JString m \<Rightarrow> includes_str (toLowerCase m) ''timeout''
                      \<or> includes_str (toLowerCase m) ''timed out''
      | _ \<Rightarrow> False)"
  by (simp add: errMessage_def toLowerCase_def split: jsval.split)

lemma classify_cases:
  "classifyOpenAiError err =
     (if unauthorized err then ''invalid_api_key''
      else if rateLimited err then ''rate_limit''
      else if timedOut err then ''timeout''
      else ''provider_error'')"
proof -
  have "classifyOpenAiError err =
     (if failureStatus err = Some (Finite 401) \<or> failureStatus err = Some (Finite 403)
         \<or> failureCode err = Some ''invalid_api_key'' then ''invalid_api_key''
      else if failureStatus err = Some (Finite 429)
         \<or> failureCode err = Some ''rate_limit_exceeded'' then ''rate_limit''
      else if errName err = ''AbortError'' then ''timeout''
      else if failureCode err = Some ''ETIMEDOUT'' \<or> failureCode err = Some ''ECONNABORTED''
      then ''timeout''
      else if includes_str (toLowerCase (errMessage err)) ''timeout''
              \<or> includes_str (toLowerCase (errMessage err)) ''timed out''
      then ''timeout''
      else ''provider_error'')"
    by (simp add: classifyOpenAiError_def Let_def errStatus_carried errCode_carried)
  then show ?thesis
    unfolding errName_carried errMessage_carried unauthorized_def rateLimited_def timedOut_def
    by auto
qed

lemma classify_codes:
  "classifyOpenAiError err \<in> {''invalid_api_key'', ''timeout'', ''rate_limit'', ''provider_error''}"
  by (simp add: classifyOpenAiError_def Let_def)

lemma fallbackReply_nonempty: "fallbackReply \<noteq> []"
  by (simp add: fallbackReply_def)

text \<open>The four ways \<^verbatim>\<open>generateReply\<close> ends, as one case distinction.\<close>

lemma generateReply_outcomes:
  obtains
    (no_key) "getOpenAiClientFromEnvOrNull env = None"
      "fst (generateReply env prompts call input) =
         Inr (fallbackResult (envModelOrDefault env) ''missing_api_key'')"
  | (rejected) openai err where "getOpenAiClientFromEnvOrNull env = Some openai"
      "fst (generateReply env prompts call input) =
         Inr (fallbackResult (envModelOrDefault env) (classifyOpenAiError err))"
  | (empty) openai where "getOpenAiClientFromEnvOrNull env = Some openai"
      "fst (generateReply env prompts call input) =
         Inr (fallbackResult (handle_model openai) ''empty_response'')"
  | (replied) openai r where "getOpenAiClientFromEnvOrNull env = Some openai" "r \<noteq> []"
      "fst (generateReply env prompts call input) =
         Inr \<lparr>reply = r,
              meta = \<lparr>provider = ''openai'', meta_model = handle_model openai,
                      usedFallback = False, errorCode = None\<rparr>\<rparr>"
proof (cases "getOpenAiClientFromEnvOrNull env")
  case None
  then show ?thesis using no_key generateReply_no_client by simp
next
  case (Some openai)
  show ?thesis
  proof (cases "call (client openai) (buildRequest env prompts openai input)")
    case (Rejected err)
    then show ?thesis using rejected Some generateReply_rejected by simp
  next
    case (Resolved completion)
    note res = generateReply_resolved [where call = call and env = env and prompts = prompts
        and input = input, OF Some Resolved]
    show ?thesis
    proof (cases "firstContent completion")
      case None
      then show ?thesis using empty Some res by simp
    next
      case (Some c)
      show ?thesis
      proof (cases "trim c = []")
        case True
        then show ?thesis using empty \<open>getOpenAiClientFromEnvOrNull env = Some openai\<close> res Some by simp
      next
        case False
        then show ?thesis using replied \<open>getOpenAiClientFromEnvOrNull env = Some openai\<close> res Some by simp
      qed
    qed
  qed
qed

text \<open>
  C1. Whatever the history and whatever the provider call does (a thrown value, no
  credential, an empty completion), \<^verbatim>\<open>generateReply\<close> returns a result with a reply text
  and metadata; it throws nothing to its caller.
\<close>

theorem generateReply_always_returns:
  "\<exists>r. fst (generateReply env prompts call input) = Inr r \<and> reply r \<noteq> []"
  by (rule generateReply_outcomes [of env prompts call input])
     (simp_all add: fallbackResult_def fallbackReply_nonempty)

text \<open>
  C10. In every result of \<^verbatim>\<open>generateReply\<close> the provider is \<^verbatim>\<open>"openai"\<close>, and an error code
  is present exactly when the fallback was used; the code is then one of
  \<^verbatim>\<open>missing_api_key\<close>, \<^verbatim>\<open>empty_response\<close>, \<^verbatim>\<open>invalid_api_key\<close>, \<^verbatim>\<open>timeout\<close>, \<^verbatim>\<open>rate_limit\<close>
  and \<^verbatim>\<open>provider_error\<close>.
\<close>

theorem reply_meta_invariant:
  "\<exists>r. fst (generateReply env prompts call input) = Inr r
      \<and> provider (meta r) = ''openai''
      \<and> (errorCode (meta r) \<noteq> None \<longleftrightarrow> usedFallback (meta r))
      \<and> (usedFallback (meta r) \<longrightarrow>
           (\<exists>c \<in> {''missing_api_key'', ''empty_response'', ''invalid_api_key'', ''timeout'',
                   ''rate_limit'', ''provider_error''}. errorCode (meta r) = Some c))"
proof (rule generateReply_outcomes [of env prompts call input])
  fix openai err
  assume "fst (generateReply env prompts call input) =
         Inr (fallbackResult (envModelOrDefault env) (classifyOpenAiError err))"
  then show ?thesis using classify_codes [of err] by (auto simp: fallbackResult_def)
qed (simp_all add: fallbackResult_def)


theorem reply_meta_invariant_witness:
  "fst (generateReply Map.empty \<lparr>SYSTEM_PROMPT = ''S'', FAQ_KNOWLEDGE = ''F''\<rparr>
          (\<lambda>c q. Rejected JNull) \<lparr>history = []\<rparr>)
     = Inr \<lparr>reply = fallbackReply,
            meta = \<lparr>provider = ''openai'', meta_model = ''gpt-4o-mini'',
                    usedFallback = True, errorCode = Some ''missing_api_key''\<rparr>\<rparr>
   \<and> ''missing_api_key'' \<in> {''missing_api_key'', ''empty_response'', ''invalid_api_key'',
                              ''timeout'', ''rate_limit'', ''provider_error''}"
  using reply_meta_invariant [of Map.empty "\<lparr>SYSTEM_PROMPT = ''S'', FAQ_KNOWLEDGE = ''F''\<rparr>"
      "\<lambda>c q. Rejected JNull" "\<lparr>history = []\<rparr>"]
  by (simp add: generateReply_no_client client_None_iff fallbackResult_def envModelOrDefault_def)

text \<open>
  C2. With no credential configured (the variable absent, or blank once trimmed), the
  result is the fixed fallback reply with \<^verbatim>\<open>provider: "openai"\<close>, the model name,
  \<^verbatim>\<open>usedFallback: true\<close> and \<^verbatim>\<open>errorCode: "missing_api_key"\<close>, and no request is sent to
  the provider.
\<close>

theorem missing_api_key_fallback:
  assumes "env ''OPENAI_API_KEY'' = None
           \<or> (\<exists>k. env ''OPENAI_API_KEY'' = Some k \<and> trim k = [])"
  shows "generateReply env prompts call input =
           (Inr \<lparr>reply = ''Sorry, I'm having trouble right now. Please try again in a moment.'',
                 meta = \<lparr>provider = ''openai'', meta_model = envModelOrDefault env,
                         usedFallback = True, errorCode = Some ''missing_api_key''\<rparr>\<rparr>,
            [])"
proof -
  have "getOpenAiClientFromEnvOrNull env = None"
    using assms by (simp add: client_None_iff)
  then show ?thesis
    by (simp add: generateReply_no_client fallbackResult_def fallbackReply_def)
qed

theorem missing_api_key_fallback_witness:
  "generateReply [''OPENAI_API_KEY'' \<mapsto> ''  '', ''OPENAI_MODEL'' \<mapsto> '' gpt-4o ''] 
       \<lparr>SYSTEM_PROMPT = ''S'', FAQ_KNOWLEDGE = ''F''\<rparr>
       (\<lambda>c q. Resolved \<lparr>choices = []\<rparr>) \<lparr>history = [\<lparr>role = user, content = ''hi''\<rparr>]\<rparr>
     = (Inr \<lparr>reply = fallbackReply,
             meta = \<lparr>provider = ''openai'', meta_model = ''gpt-4o'',
                     usedFallback = True, errorCode = Some ''missing_api_key''\<rparr>\<rparr>,
        [])"
  using missing_api_key_fallback
    [of "[''OPENAI_API_KEY'' \<mapsto> ''  '', ''OPENAI_MODEL'' \<mapsto> '' gpt-4o '']"
        "\<lparr>SYSTEM_PROMPT = ''S'', FAQ_KNOWLEDGE = ''F''\<rparr>"
        "\<lambda>c q. Resolved \<lparr>choices = []\<rparr>" "\<lparr>history = [\<lparr>role = user, content = ''hi''\<rparr>]\<rparr>"]
  by (simp add: trim_def isWhiteSpace_def envModelOrDefault_def fallbackReply_def)

text \<open>
  C3. A value thrown by the provider call is classified as exactly one of
  \<^verbatim>\<open>invalid_api_key\<close>, \<^verbatim>\<open>rate_limit\<close>, \<^verbatim>\<open>timeout\<close> and \<^verbatim>\<open>provider_error\<close>, by what the value
  carries and in this order of precedence: status 401 or 403 or the invalid-credential
  code; else status 429 or the rate-limit code; else the abort name, a timeout code, or
  a message that mentions a timeout; else the last. When the call of a configured client
  fails with the value, \<^verbatim>\<open>generateReply\<close> returns the fallback reply with that code and
  \<^verbatim>\<open>usedFallback: true\<close>.
\<close>

theorem provider_failure_classified:
  "classifyOpenAiError err =
     (if unauthorized err then ''invalid_api_key''
      else if rateLimited err then ''rate_limit''
      else if timedOut err then ''timeout''
      else ''provider_error'')
   \<and> classifyOpenAiError err
       \<in> {''invalid_api_key'', ''timeout'', ''rate_limit'', ''provider_error''}
   \<and> (\<forall>openai. getOpenAiClientFromEnvOrNull env = Some openai
          \<and> call (client openai) (buildRequest env prompts openai input) = Rejected err
        \<longrightarrow> fst (generateReply env prompts call input) =
              Inr \<lparr>reply = ''Sorry, I'm having trouble right now. Please try again in a moment.'',
                   meta = \<lparr>provider = ''openai'', meta_model = envModelOrDefault env,
                           usedFallback = True,
                           errorCode = Some (classifyOpenAiError err)\<rparr>\<rparr>)"
  using classify_cases [of err] classify_codes [of err]
  by (auto simp: generateReply_rejected fallbackResult_def fallbackReply_def
      simp del: insert_iff)

lemmas client_eval = getOpenAiClientFromEnvOrNull_def getOpenAiConfigFromEnv_def
  envModelOrDefault_def timeoutMs_def clampInt_def trim_def isWhiteSpace_def

lemmas carried_eval = unauthorized_def rateLimited_def timedOut_def failureStatus_def
  failureCode_def numberAt_def stringAt_def toLowerCase_def lowerChar_def

lemmas classify_eval = classifyOpenAiError_def errStatus_def errCode_def errName_def
  errMessage_def toLowerCase_def lowerChar_def Let_def

text \<open>
  The theorem at thrown values that carry a status on each of the three places, a code,
  an abort name and a message, alone and against each other: the status 401 decides
  whatever else is there, the credential code wins over the rate-limit status, the
  rate-limit status over the abort name, and a value that carries none of them is a
  provider error. A call that fails with status 401 ends in the fallback reply with
  \<^verbatim>\<open>invalid_api_key\<close>.
\<close>

theorem provider_failure_classified_witness:
  "classifyOpenAiError (JObject [(''status'', JNumber (Finite 401))]) = ''invalid_api_key''
   \<and> classifyOpenAiError (JObject [(''statusCode'', JNumber (Finite 403))]) = ''invalid_api_key''
   \<and> classifyOpenAiError
        (JObject [(''status'', JString ''401''),
                  (''error'', JObject [(''status'', JNumber (Finite 429))])]) = ''rate_limit''
   \<and> classifyOpenAiError
        (JObject [(''status'', JNumber (Finite 429)), (''code'', JString ''invalid_api_key'')])
       = ''invalid_api_key''
   \<and> classifyOpenAiError
        (JObject [(''name'', JString ''AbortError''),
                  (''error'', JObject [(''code'', JString ''rate_limit_exceeded'')])])
       = ''rate_limit''
   \<and> classifyOpenAiError (JObject [(''name'', JString ''AbortError'')]) = ''timeout''
   \<and> classifyOpenAiError (JObject [(''code'', JString ''ETIMEDOUT'')]) = ''timeout''
   \<and> classifyOpenAiError
        (JObject [(''status'', JNumber (Finite 500)), (''message'', JString ''Request Timed Out.'')])
       = ''timeout''
   \<and> classifyOpenAiError
        (JObject [(''status'', JNumber (Finite 500)), (''message'', JString ''boom'')])
       = ''provider_error''
   \<and> classifyOpenAiError (JString ''timeout'') = ''provider_error''
   \<and> fst (generateReply [''OPENAI_API_KEY'' \<mapsto> ''sk-test'']
            \<lparr>SYSTEM_PROMPT = ''S'', FAQ_KNOWLEDGE = ''F''\<rparr>
            (\<lambda>c q. Rejected (JObject [(''status'', JNumber (Finite 401))]))
            \<lparr>history = []\<rparr>)
     = Inr \<lparr>reply = fallbackReply,
            meta = \<lparr>provider = ''openai'', meta_model = ''gpt-4o-mini'',
                    usedFallback = True, errorCode = Some ''invalid_api_key''\<rparr>\<rparr>"
proof -
  let ?env = "[''OPENAI_API_KEY'' \<mapsto> ''sk-test'']"
  let ?p = "\<lparr>SYSTEM_PROMPT = ''S'', FAQ_KNOWLEDGE = ''F''\<rparr>"
  let ?i = "\<lparr>history = []\<rparr>"
  let ?call = "\<lambda>(c :: OpenAI) (q :: ChatCompletionRequest).
                 Rejected (JObject [(''status'', JNumber (Finite 401))])"
  note th = provider_failure_classified [where env = ?env and prompts = ?p and input = ?i
      and call = ?call]
  have a: "classifyOpenAiError (JObject [(''status'', JNumber (Finite 401))]) = ''invalid_api_key''"
    using th [of "JObject [(''status'', JNumber (Finite 401))]", THEN conjunct1]
    by (simp add: carried_eval)
  have b: "classifyOpenAiError (JObject [(''statusCode'', JNumber (Finite 403))])
             = ''invalid_api_key''"
    using th [of "JObject [(''statusCode'', JNumber (Finite 403))]", THEN conjunct1]
    by (simp add: carried_eval)
  have c: "classifyOpenAiError
        (JObject [(''status'', JString ''401''),
                  (''error'', JObject [(''status'', JNumber (Finite 429))])]) = ''rate_limit''"
    using th [of "JObject [(''status'', JString ''401''),
                  (''error'', JObject [(''status'', JNumber (Finite 429))])]", THEN conjunct1]
    by (simp add: carried_eval)
  have d: "classifyOpenAiError
        (JObject [(''status'', JNumber (Finite 429)), (''code'', JString ''invalid_api_key'')])
       = ''invalid_api_key''"
    using th [of "JObject [(''status'', JNumber (Finite 429)),
                           (''code'', JString ''invalid_api_key'')]", THEN conjunct1]
    by (simp add: carried_eval)
  have e: "classifyOpenAiError
        (JObject [(''name'', JString ''AbortError''),
                  (''error'', JObject [(''code'', JString ''rate_limit_exceeded'')])])
       = ''rate_limit''"
    using th [of "JObject [(''name'', JString ''AbortError''),
                  (''error'', JObject [(''code'', JString ''rate_limit_exceeded'')])]",
              THEN conjunct1]
    by (simp add: carried_eval)
  have f: "classifyOpenAiError (JObject [(''name'', JString ''AbortError'')]) = ''timeout''"
    using th [of "JObject [(''name'', JString ''AbortError'')]", THEN conjunct1]
    by (simp add: carried_eval)
  have g: "classifyOpenAiError (JObject [(''code'', JString ''ETIMEDOUT'')]) = ''timeout''"
    using th [of "JObject [(''code'', JString ''ETIMEDOUT'')]", THEN conjunct1]
    by (simp add: carried_eval)
  have h: "classifyOpenAiError
        (JObject [(''status'', JNumber (Finite 500)), (''message'', JString ''Request Timed Out.'')])
       = ''timeout''"
    using th [of "JObject [(''status'', JNumber (Finite 500)),
                           (''message'', JString ''Request Timed Out.'')]", THEN conjunct1]
    by (simp add: carried_eval)
  have i: "classifyOpenAiError
        (JObject [(''status'', JNumber (Finite 500)), (''message'', JString ''boom'')])
       = ''provider_error''"
    using th [of "JObject [(''status'', JNumber (Finite 500)), (''message'', JString ''boom'')]",
              THEN conjunct1]
    by (simp add: carried_eval)
  have j: "classifyOpenAiError (JString ''timeout'') = ''provider_error''"
    using th [of "JString ''timeout''", THEN conjunct1]
    by (simp add: carried_eval)
  have k: "fst (generateReply ?env ?p ?call ?i)
     = Inr \<lparr>reply = fallbackReply,
            meta = \<lparr>provider = ''openai'', meta_model = ''gpt-4o-mini'',
                    usedFallback = True, errorCode = Some ''invalid_api_key''\<rparr>\<rparr>"
    using th [of "JObject [(''status'', JNumber (Finite 401))]", THEN conjunct2, THEN conjunct2]
    unfolding a by (simp add: client_eval fallbackReply_def)
  show ?thesis
    using a b c d e f g h i j k by (intro conjI)
qed

text \<open>
  C4. When the call of a configured client resolves: if the content of the first choice
  trims to a text that is not empty, that text is the reply, with \<^verbatim>\<open>provider: "openai"\<close>,
  the model, \<^verbatim>\<open>usedFallback: false\<close> and no error code; if the content is absent, empty or
  white space only, the result is the fallback reply with \<^verbatim>\<open>errorCode: "empty_response"\<close>
  and \<^verbatim>\<open>usedFallback: true\<close>.
\<close>

theorem completion_reply_or_empty_response:
  assumes "getOpenAiClientFromEnvOrNull env = Some openai"
    and "call (client openai) (buildRequest env prompts openai input) = Resolved completion"
  shows "(\<forall>c. firstContent completion = Some c \<and> trim c \<noteq> [] \<longrightarrow>
            fst (generateReply env prompts call input) =
              Inr \<lparr>reply = trim c,
                   meta = \<lparr>provider = ''openai'', meta_model = handle_model openai,
                           usedFallback = False, errorCode = None\<rparr>\<rparr>)
       \<and> (firstContent completion = None
            \<or> (\<exists>c. firstContent completion = Some c \<and> trim c = []) \<longrightarrow>
            fst (generateReply env prompts call input) =
              Inr \<lparr>reply = ''Sorry, I'm having trouble right now. Please try again in a moment.'',
                   meta = \<lparr>provider = ''openai'', meta_model = handle_model openai,
                           usedFallback = True, errorCode = Some ''empty_response''\<rparr>\<rparr>)"
  using generateReply_resolved [where call = call and env = env and prompts = prompts
      and input = input, OF assms]
  by (auto simp: fallbackResult_def fallbackReply_def)

theorem completion_reply_or_empty_response_witness:
  "fst (generateReply [''OPENAI_API_KEY'' \<mapsto> ''sk-test'']
          \<lparr>SYSTEM_PROMPT = ''S'', FAQ_KNOWLEDGE = ''F''\<rparr>
          (\<lambda>c q. Resolved \<lparr>choices = [\<lparr>choice_message = Some \<lparr>msg_content = Some '' Hello ''\<rparr>\<rparr>]\<rparr>)
          \<lparr>history = []\<rparr>)
     = Inr \<lparr>reply = ''Hello'',
            meta = \<lparr>provider = ''openai'', meta_model = ''gpt-4o-mini'',
                    usedFallback = False, errorCode = None\<rparr>\<rparr>
   \<and> fst (generateReply [''OPENAI_API_KEY'' \<mapsto> ''sk-test'']
          \<lparr>SYSTEM_PROMPT = ''S'', FAQ_KNOWLEDGE = ''F''\<rparr>
          (\<lambda>c q. Resolved \<lparr>choices = [\<lparr>choice_message = Some \<lparr>msg_content = Some ''  ''\<rparr>\<rparr>]\<rparr>)
          \<lparr>history = []\<rparr>)
     = Inr \<lparr>reply = fallbackReply,
            meta = \<lparr>provider = ''openai'', meta_model = ''gpt-4o-mini'',
                    usedFallback = True, errorCode = Some ''empty_response''\<rparr>\<rparr>"
proof -
  let ?env = "[''OPENAI_API_KEY'' \<mapsto> ''sk-test'']"
  let ?p = "\<lparr>SYSTEM_PROMPT = ''S'', FAQ_KNOWLEDGE = ''F''\<rparr>"
  let ?h = "\<lparr>client = \<lparr>client_apiKey = ''sk-test'', client_timeout = 15000\<rparr>,
             handle_model = ''gpt-4o-mini''\<rparr>"
  let ?c1 = "\<lparr>choices = [\<lparr>choice_message = Some \<lparr>msg_content = Some '' Hello ''\<rparr>\<rparr>]\<rparr>"
  let ?c2 = "\<lparr>choices = [\<lparr>choice_message = Some \<lparr>msg_content = Some ''  ''\<rparr>\<rparr>]\<rparr>"
  have h: "getOpenAiClientFromEnvOrNull ?env = Some ?h"
    by (simp add: client_eval)
  have a: "fst (generateReply ?env ?p (\<lambda>c q. Resolved ?c1) \<lparr>history = []\<rparr>)
     = Inr \<lparr>reply = ''Hello'',
            meta = \<lparr>provider = ''openai'', meta_model = ''gpt-4o-mini'',
                    usedFallback = False, errorCode = None\<rparr>\<rparr>"
    using completion_reply_or_empty_response [where call = "\<lambda>c q. Resolved ?c1" and env = ?env
        and prompts = ?p and input = "\<lparr>history = []\<rparr>" and completion = ?c1, OF h]
    by (simp add: firstContent_def trim_def isWhiteSpace_def)
  have b: "fst (generateReply ?env ?p (\<lambda>c q. Resolved ?c2) \<lparr>history = []\<rparr>)
     = Inr \<lparr>reply = fallbackReply,
            meta = \<lparr>provider = ''openai'', meta_model = ''gpt-4o-mini'',
                    usedFallback = True, errorCode = Some ''empty_response''\<rparr>\<rparr>"
    using completion_reply_or_empty_response [where call = "\<lambda>c q. Resolved ?c2" and env = ?env
        and prompts = ?p and input = "\<lparr>history = []\<rparr>" and completion = ?c2, OF h]
    by (simp add: firstContent_def trim_def isWhiteSpace_def fallbackReply_def)
  show ?thesis using a b by simp
qed




section \<open>Bounded history\<close>














section \<open>Requests that are refused\<close>

lemma handler_empty_message:
  assumes "trim (body_message body) = []"
  shows "postChatMessage_handler env prompts call gen body db =
           (Inl (ThrownApiError
                   \<lparr>statusCode = 400, code = ''empty_message'',
                    err_message = ''Message must not be empty''\<rparr>), db)"
  using assms by (simp add: postChatMessage_handler_def)

text \<open>
  C6, at the route and with the schema of the route. For a message that trims to the
  empty text the request \<^verbatim>\<open>POST /chat/message\<close> is refused with status 400 and the store
  is left as it was, no conversation created and no message written: by the handler's
  guard, with the \<^verbatim>\<open>ApiError\<close> of code \<^verbatim>\<open>empty_message\<close>, when the body passes the schema
  (a message of 1 to 4000 characters), and by the schema before that, with the
  framework's validation error, when it does not (the empty message, or more than 4000
  characters of white space).
\<close>

theorem empty_message_refused:
  assumes "trim (body_message body) = []"
  shows "postChatMessage env prompts call gen body db =
           (if SendMessageBodySchema body
            then (Inl (ThrownApiError
                         \<lparr>statusCode = 400, code = ''empty_message'',
                          err_message = ''Message must not be empty''\<rparr>), db)
            else (Inl (ThrownFastifyError
                         \<lparr>fe_statusCode = 400, fe_code = ''FST_ERR_VALIDATION''\<rparr>), db))
       \<and> postChatMessage_handler env prompts call gen body db =
           (Inl (ThrownApiError
                   \<lparr>statusCode = 400, code = ''empty_message'',
                    err_message = ''Message must not be empty''\<rparr>), db)"
  using handler_empty_message [OF assms] by (simp add: postChatMessage_def)

lemma sendChatMessage_unknown:
  assumes "trim sid \<noteq> []" and "findConversationById db (trim sid) = None"
  shows "sendChatMessage env prompts call gen \<lparr>sm_message = msg, sm_sessionId = Some sid\<rparr> db =
           (Inl (ThrownApiError
                   \<lparr>statusCode = 404, code = ''invalid_session'',
                    err_message = ''Session not found''\<rparr>), db)"
proof -
  obtain c cs where t: "trim sid = c # cs"
    using assms(1) by (cases "trim sid") auto
  show ?thesis
    using assms(2) by (simp add: sendChatMessage_def t)
qed

lemma trim_nonempty_arg: "trim s \<noteq> [] \<Longrightarrow> s \<noteq> []"
  by (auto simp: trim_def)

text \<open>
  C7. For a session identifier that, once trimmed, is not empty and names no stored
  conversation: sending fails with the \<^verbatim>\<open>ApiError\<close> of status 404 and code
  \<^verbatim>\<open>invalid_session\<close>, through the service, through the handler of the route, and through
  the route with its schema; reading the session fails with status 404 and code
  \<^verbatim>\<open>not_found\<close>, as it does for every identifier that is not stored. In each case the
  store is left as it was.
\<close>

theorem unknown_session_refused:
  assumes "trim sid \<noteq> []" and "findConversationById db (trim sid) = None"
  shows "sendChatMessage env prompts call gen \<lparr>sm_message = msg, sm_sessionId = Some sid\<rparr> db =
           (Inl (ThrownApiError
                   \<lparr>statusCode = 404, code = ''invalid_session'',
                    err_message = ''Session not found''\<rparr>), db)
       \<and> (trim msg \<noteq> [] \<longrightarrow>
            postChatMessage_handler env prompts call gen
                \<lparr>body_message = msg, body_sessionId = Some sid\<rparr> db =
              (Inl (ThrownApiError
                      \<lparr>statusCode = 404, code = ''invalid_session'',
                       err_message = ''Session not found''\<rparr>), db))
       \<and> (trim msg \<noteq> [] \<and> length msg \<le> 4000 \<longrightarrow>
            postChatMessage env prompts call gen
                \<lparr>body_message = msg, body_sessionId = Some sid\<rparr> db =
              (Inl (ThrownApiError
                      \<lparr>statusCode = 404, code = ''invalid_session'',
                       err_message = ''Session not found''\<rparr>), db))
       \<and> getChatSession (trim sid) db =
           (Inl (ThrownApiError
                   \<lparr>statusCode = 404, code = ''not_found'',
                    err_message = ''Conversation not found''\<rparr>), db)
       \<and> (\<forall>k. findConversationById db k = None \<longrightarrow>
            getChatSessionRoute k db =
              (Inl (ThrownApiError
                      \<lparr>statusCode = 404, code = ''not_found'',
                       err_message = ''Conversation not found''\<rparr>), db))"
proof -
  obtain c cs where s: "sid = c # cs"
    using trim_nonempty_arg [OF assms(1)] by (cases sid) auto
  have handler: "trim msg \<noteq> [] \<longrightarrow>
      postChatMessage_handler env prompts call gen
          \<lparr>body_message = msg, body_sessionId = Some sid\<rparr> db =
      sendChatMessage env prompts call gen \<lparr>sm_message = msg, sm_sessionId = Some sid\<rparr> db"
    by (simp add: postChatMessage_handler_def s)
  have schema: "trim msg \<noteq> [] \<and> length msg \<le> 4000 \<longrightarrow>
      SendMessageBodySchema \<lparr>body_message = msg, body_sessionId = Some sid\<rparr>"
    using trim_nonempty_arg [of msg]
    by (auto simp: SendMessageBodySchema_def s Suc_le_eq)
  have route: "trim msg \<noteq> [] \<and> length msg \<le> 4000 \<longrightarrow>
      postChatMessage env prompts call gen \<lparr>body_message = msg, body_sessionId = Some sid\<rparr> db =
      sendChatMessage env prompts call gen \<lparr>sm_message = msg, sm_sessionId = Some sid\<rparr> db"
    using schema handler by (simp add: postChatMessage_def)
  show ?thesis
    using sendChatMessage_unknown [OF assms] handler route assms(2)
    by (simp add: getChatSession_def getChatSessionRoute_def)
qed

section \<open>Reading a session\<close>




























section \<open>The properties at the sample values\<close>





lemma sample_client:
  "getOpenAiClientFromEnvOrNull
     [''OPENAI_API_KEY'' \<mapsto> ''sk-test'', ''LLM_HISTORY_LIMIT'' \<mapsto> ''2'']
   = Some \<lparr>client = \<lparr>client_apiKey = ''sk-test'', client_timeout = 15000\<rparr>,
           handle_model = ''gpt-4o-mini''\<rparr>"
  by (simp add: client_eval)






text \<open>
  White space of three characters is refused by the handler's guard, and the empty
  message by the schema.
\<close>

theorem empty_message_refused_witness:
  "postChatMessage Map.empty samplePrompts (\<lambda>c q. Rejected JNull) sampleGenerated
     \<lparr>body_message = [CHR '' '', CHR 0x09, CHR 0x0A], body_sessionId = None\<rparr> sampleDb
   = (Inl (ThrownApiError
             \<lparr>statusCode = 400, code = ''empty_message'',
              err_message = ''Message must not be empty''\<rparr>), sampleDb)
   \<and> postChatMessage Map.empty samplePrompts (\<lambda>c q. Rejected JNull) sampleGenerated
     \<lparr>body_message = [], body_sessionId = None\<rparr> sampleDb
   = (Inl (ThrownFastifyError \<lparr>fe_statusCode = 400, fe_code = ''FST_ERR_VALIDATION''\<rparr>),
      sampleDb)"
proof -
  let ?call = "\<lambda>(c :: OpenAI) (q :: ChatCompletionRequest). Rejected JNull"
  have t: "trim (body_message \<lparr>body_message = [CHR '' '', CHR 0x09, CHR 0x0A],
                               body_sessionId = None\<rparr>) = []"
    by (simp add: trim_def isWhiteSpace_def)
  have e: "trim (body_message \<lparr>body_message = [], body_sessionId = None\<rparr>) = []"
    by (simp add: trim_def)
  have a: "postChatMessage Map.empty samplePrompts ?call sampleGenerated
     \<lparr>body_message = [CHR '' '', CHR 0x09, CHR 0x0A], body_sessionId = None\<rparr> sampleDb
   = (Inl (ThrownApiError
             \<lparr>statusCode = 400, code = ''empty_message'',
              err_message = ''Message must not be empty''\<rparr>), sampleDb)"
    using empty_message_refused [OF t, of Map.empty samplePrompts ?call sampleGenerated sampleDb,
        THEN conjunct1]
    by (simp add: SendMessageBodySchema_def)
  have b: "postChatMessage Map.empty samplePrompts ?call sampleGenerated
     \<lparr>body_message = [], body_sessionId = None\<rparr> sampleDb
   = (Inl (ThrownFastifyError \<lparr>fe_statusCode = 400, fe_code = ''FST_ERR_VALIDATION''\<rparr>),
      sampleDb)"
    using empty_message_refused [OF e, of Map.empty samplePrompts ?call sampleGenerated sampleDb,
        THEN conjunct1]
    by (simp add: SendMessageBodySchema_def)
  show ?thesis using a b by (rule conjI)
qed

lemma sample_no_client: "getOpenAiClientFromEnvOrNull Map.empty = None"
  by (simp add: getOpenAiClientFromEnvOrNull_def getOpenAiConfigFromEnv_def)

lemma sample_blank_send:
  "sendChatMessage Map.empty samplePrompts call sampleGenerated
     \<lparr>sm_message = '' '', sm_sessionId = None\<rparr> sampleDb
   = (Inr \<lparr>sm_reply = fallbackReply, sm_resultSessionId = ''c9''\<rparr>,
      \<lparr>conversations =
         [conversation1,
          \<lparr>conv_id = ''c9'', conv_createdAt = 1766250100000, updatedAt = 1766250100000,
           channel = ''web'', externalConversationId = None, title = Some ''Web session''\<rparr>],
       messages =
         [message3, message1, message4, message2,
          \<lparr>msg_id = ''m8'', createdAt = 1766250100001, conversationId = ''c9'',
           direction = ''inbound'', msg_text = [], externalMessageId = None,
           metadata = None\<rparr>,
          \<lparr>msg_id = ''m9'', createdAt = 1766250100900, conversationId = ''c9'',
           direction = ''outbound'', msg_text = fallbackReply, externalMessageId = None,
           metadata =
             Some (JObject
                    [(''llm'',
                      JObject [(''provider'', JString ''openai''),
                               (''model'', JString ''gpt-4o-mini''),
                               (''usedFallback'', JBoolean True),
                               (''errorCode'', JString ''missing_api_key'')])])\<rparr>]\<rparr>)"
  by (simp add: sendChatMessage_def createConversation_def createMessage_def Let_def
      sampleGenerated_def sampleDb_def generateReply_no_client [OF sample_no_client]
      fallbackResult_def safeLlmMeta_def envModelOrDefault_def trim_def isWhiteSpace_def)

text \<open>
  C6 as it is stated fails on the service and on the route. A message of one space trims
  to the empty text, but \<^verbatim>\<open>sendChatMessage\<close>, which makes no check of its own, succeeds on
  it: a conversation is created and two messages are written, the first with the empty
  text. And the route answers the empty message with the framework's validation
  error, whose code is not \<^verbatim>\<open>empty_message\<close>.
\<close>

theorem empty_message_counterexample:
  "trim '' '' = []
   \<and> sendChatMessage Map.empty samplePrompts (\<lambda>c q. Rejected JNull) sampleGenerated
       \<lparr>sm_message = '' '', sm_sessionId = None\<rparr> sampleDb
     = (Inr \<lparr>sm_reply = fallbackReply, sm_resultSessionId = ''c9''\<rparr>,
        \<lparr>conversations =
           [conversation1,
            \<lparr>conv_id = ''c9'', conv_createdAt = 1766250100000, updatedAt = 1766250100000,
             channel = ''web'', externalConversationId = None, title = Some ''Web session''\<rparr>],
         messages =
           [message3, message1, message4, message2,
            \<lparr>msg_id = ''m8'', createdAt = 1766250100001, conversationId = ''c9'',
             direction = ''inbound'', msg_text = [], externalMessageId = None,
             metadata = None\<rparr>,
            \<lparr>msg_id = ''m9'', createdAt = 1766250100900, conversationId = ''c9'',
             direction = ''outbound'', msg_text = fallbackReply, externalMessageId = None,
             metadata =
               Some (JObject
                      [(''llm'',
                        JObject [(''provider'', JString ''openai''),
                                 (''model'', JString ''gpt-4o-mini''),
                                 (''usedFallback'', JBoolean True),
                                 (''errorCode'', JString ''missing_api_key'')])])\<rparr>]\<rparr>)
   \<and> postChatMessage Map.empty samplePrompts (\<lambda>c q. Rejected JNull) sampleGenerated
       \<lparr>body_message = [], body_sessionId = None\<rparr> sampleDb
     = (Inl (ThrownFastifyError \<lparr>fe_statusCode = 400, fe_code = ''FST_ERR_VALIDATION''\<rparr>),
        sampleDb)"
proof -
  have a: "trim '' '' = []"
    by (simp add: trim_def isWhiteSpace_def)
  have c: "postChatMessage Map.empty samplePrompts (\<lambda>c q. Rejected JNull) sampleGenerated
       \<lparr>body_message = [], body_sessionId = None\<rparr> sampleDb
     = (Inl (ThrownFastifyError \<lparr>fe_statusCode = 400, fe_code = ''FST_ERR_VALIDATION''\<rparr>),
        sampleDb)"
    by (simp add: postChatMessage_def SendMessageBodySchema_def)
  show ?thesis
    using a sample_blank_send [of "\<lambda>c q. Rejected JNull"] c by (intro conjI)
qed

theorem unknown_session_refused_witness:
  "sendChatMessage Map.empty samplePrompts (\<lambda>c q. Rejected JNull) sampleGenerated
     \<lparr>sm_message = ''hello'', sm_sessionId = Some '' c7 ''\<rparr> sampleDb
   = (Inl (ThrownApiError
             \<lparr>statusCode = 404, code = ''invalid_session'',
              err_message = ''Session not found''\<rparr>), sampleDb)
   \<and> getChatSession ''c7'' sampleDb
   = (Inl (ThrownApiError
             \<lparr>statusCode = 404, code = ''not_found'',
              err_message = ''Conversation not found''\<rparr>), sampleDb)"
proof -
  have t: "trim '' c7 '' = ''c7''"
    by (simp add: trim_def isWhiteSpace_def)
  have f: "findConversationById sampleDb (trim '' c7 '') = None"
    unfolding t by (simp add: findConversationById_def sampleDb_def conversation1_def)
  have ne: "trim '' c7 '' \<noteq> []"
    unfolding t by simp
  note th = unknown_session_refused [OF ne f, of Map.empty samplePrompts
      "\<lambda>c q. Rejected JNull" sampleGenerated "''hello''", unfolded t]
  show ?thesis
    using th [THEN conjunct1]
      th [THEN conjunct2, THEN conjunct2, THEN conjunct2, THEN conjunct1]
    by (rule conjI)
qed







text \<open>A provider call that fails with a bare text still ends in a result.\<close>

theorem generateReply_always_returns_witness:
  "fst (generateReply [''OPENAI_API_KEY'' \<mapsto> ''sk-test'', ''LLM_HISTORY_LIMIT'' \<mapsto> ''2'']
          samplePrompts (\<lambda>c q. Rejected (JString ''socket hang up''))
          \<lparr>history = sampleHistory\<rparr>)
     = Inr \<lparr>reply = fallbackReply,
            meta = \<lparr>provider = ''openai'', meta_model = ''gpt-4o-mini'',
                    usedFallback = True, errorCode = Some ''provider_error''\<rparr>\<rparr>"
proof -
  let ?env = "[''OPENAI_API_KEY'' \<mapsto> ''sk-test'', ''LLM_HISTORY_LIMIT'' \<mapsto> ''2'']"
  let ?call = "\<lambda>(c :: OpenAI) (q :: ChatCompletionRequest). Rejected (JString ''socket hang up'')"
  obtain r where r: "fst (generateReply ?env samplePrompts ?call \<lparr>history = sampleHistory\<rparr>) = Inr r"
    using generateReply_always_returns [of ?env samplePrompts ?call "\<lparr>history = sampleHistory\<rparr>"]
    by blast
  have c: "classifyOpenAiError (JString ''socket hang up'') = ''provider_error''"
    by (simp add: classify_eval)
  have m: "envModelOrDefault ?env = ''gpt-4o-mini''"
    by (simp add: envModelOrDefault_def)
  have "generateReply ?env samplePrompts ?call \<lparr>history = sampleHistory\<rparr> =
          (Inr (fallbackResult ''gpt-4o-mini'' ''provider_error''),
           [buildRequest ?env samplePrompts
              \<lparr>client = \<lparr>client_apiKey = ''sk-test'', client_timeout = 15000\<rparr>,
               handle_model = ''gpt-4o-mini''\<rparr> \<lparr>history = sampleHistory\<rparr>])"
    using generateReply_rejected [OF sample_client, where call = ?call and prompts = samplePrompts
        and input = "\<lparr>history = sampleHistory\<rparr>" and err = "JString ''socket hang up''"]
    unfolding c m by simp
  then show ?thesis
    using r by (simp add: fallbackResult_def)
qed

end
